theory Spec2Isabelle
  imports Main "HOL-Library.AList" "HOL-Library.Sublist"
begin

section \<open>JavaScript values as the program sees them\<close>

text \<open>
  The values that \<^verbatim>\<open>JSON.parse\<close> can return. Numbers are the integral ones (a JSON number
  with a fraction or an exponent is outside the model). An object is the list of its own
  properties in enumeration order, the order in which \<^verbatim>\<open>for (key in obj)\<close> and
  \<^verbatim>\<open>Object.keys\<close> visit them; a well-formed object has no key twice. Only own properties
  are modelled: the members every object inherits from \<^verbatim>\<open>Object.prototype\<close> (among them the
  accessor \<^verbatim>\<open>__proto__\<close>) are outside the model, so property names are taken not to collide
  with them. A JavaScript string is a \<^typ>\<open>string\<close>, one character per code unit.
\<close>

datatype json =
    JNull
  | JBool bool
  | JNum int
  | JStr string
  | JArr "json list"
  | JObj "(string \<times> json) list"

type_synonym props = "(string \<times> json) list"

text \<open>An expression's value is a JSON value or \<^verbatim>\<open>undefined\<close> (\<^const>\<open>None\<close>).\<close>

type_synonym jsval = "json option"

datatype js_error = SyntaxError | TypeError

subsection \<open>Operators\<close>

text \<open>\<^verbatim>\<open>typeof v === "object"\<close>: true of objects, arrays and \<^verbatim>\<open>null\<close>.\<close>

fun typeof_object :: "json \<Rightarrow> bool" where
  "typeof_object JNull = True"
| "typeof_object (JArr xs) = True"
| "typeof_object (JObj kvs) = True"
| "typeof_object (JBool b) = False"
| "typeof_object (JNum n) = False"
| "typeof_object (JStr s) = False"

fun isArray :: "json \<Rightarrow> bool" where
  "isArray (JArr xs) = True"
| "isArray v = False"

text \<open>Truthiness, as \<^verbatim>\<open>?:\<close> and \<^verbatim>\<open>||\<close> test it.\<close>

fun truthy :: "json \<Rightarrow> bool" where
  "truthy JNull = False"
| "truthy (JBool b) = b"
| "truthy (JNum n) = (n \<noteq> 0)"
| "truthy (JStr s) = (s \<noteq> [])"
| "truthy (JArr xs) = True"
| "truthy (JObj kvs) = True"

text \<open>\<^verbatim>\<open>a || b\<close>, where \<^verbatim>\<open>a\<close> may be \<^verbatim>\<open>undefined\<close>.\<close>

fun js_or :: "jsval \<Rightarrow> json \<Rightarrow> json" where
  "js_or None b = b"
| "js_or (Some a) b = (if truthy a then a else b)"

subsection \<open>Decimal numerals\<close>

fun digits :: "nat \<Rightarrow> string" where
  "digits n =
     (if n < 10 then [char_of (48 + n)]
      else digits (n div 10) @ [char_of (48 + n mod 10)])"

declare digits.simps [simp del]

text \<open>\<^verbatim>\<open>String(n)\<close> for an integral number.\<close>

definition number_to_string :: "int \<Rightarrow> string" where
  "number_to_string n = (if n < 0 then CHR ''-'' # digits (nat (- n)) else digits (nat n))"

definition is_digit :: "char \<Rightarrow> bool" where
  "is_digit c = (48 \<le> (of_char c :: nat) \<and> (of_char c :: nat) \<le> 57)"

fun digits_value :: "string \<Rightarrow> int \<Rightarrow> int" where
  "digits_value [] acc = acc"
| "digits_value (c # cs) acc = digits_value cs (10 * acc + (of_char c - 48))"

text \<open>
  An array index is a canonical numeral (no sign, no leading zero) below \<open>2\<^sup>3\<^sup>2 - 1\<close>.
  Keys that are array indices are enumerated first, in ascending numeric order; all
  other keys follow in the order of their creation.
\<close>

definition array_index :: "string \<Rightarrow> int option" where
  "array_index k =
     (if k \<noteq> [] \<and> list_all is_digit k \<and> (k = ''0'' \<or> hd k \<noteq> CHR ''0'')
         \<and> digits_value k 0 < 4294967295
      then Some (digits_value k 0) else None)"

subsection \<open>Own properties\<close>

text \<open>
  \<^verbatim>\<open>res[k] = v\<close> on a plain object: an existing property keeps its place and takes the
  new value; a new property is created, among the array indices when \<open>k\<close> is one, at the
  end otherwise.
\<close>

fun insert_index :: "int \<Rightarrow> string \<Rightarrow> json \<Rightarrow> props \<Rightarrow> props" where
  "insert_index i k v [] = [(k, v)]"
| "insert_index i k v ((k', v') # rest) =
     (case array_index k' of
        Some j \<Rightarrow>
          if j < i then (k', v') # insert_index i k v rest else (k, v) # (k', v') # rest
      | None \<Rightarrow> (k, v) # (k', v') # rest)"

definition js_set :: "props \<Rightarrow> string \<Rightarrow> json \<Rightarrow> props" where
  "js_set res k v =
     (if k \<in> set (map fst res) then AList.update k v res
      else case array_index k of
             Some i \<Rightarrow> insert_index i k v res
           | None \<Rightarrow> res @ [(k, v)])"



text \<open>
  The pairs \<open>(key, obj[key])\<close> that \<^verbatim>\<open>for (let key in obj)\<close> visits: the own properties of
  an object, the elements of an array and the characters of a string under their indices,
  and nothing for \<^verbatim>\<open>null\<close>, a boolean or a number.
\<close>

definition indexed :: "json list \<Rightarrow> props" where
  "indexed xs = zip (map digits [0 ..< length xs]) xs"

fun for_in :: "json \<Rightarrow> props" where
  "for_in (JObj kvs) = kvs"
| "for_in (JArr xs) = indexed xs"
| "for_in (JStr s) = indexed (map (\<lambda>c. JStr [c]) s)"
| "for_in JNull = []"
| "for_in (JBool b) = []"
| "for_in (JNum n) = []"

section \<open>The flattener\<close>

text \<open>
  \<^verbatim>\<open>const propName = parent ? parent + "." + key : key\<close>: the empty string is falsy, so an
  empty prefix adds no dot.
\<close>

definition propName :: "string \<Rightarrow> string \<Rightarrow> string" where
  "propName parent key = (if parent \<noteq> [] then parent @ ''.'' @ key else key)"

text \<open>The test of lines 19 to 23: an object that is neither \<^verbatim>\<open>null\<close> nor an array.\<close>

definition plain_object :: "json \<Rightarrow> bool" where
  "plain_object v = (typeof_object v \<and> v \<noteq> JNull \<and> \<not> isArray v)"

text \<open>
  \<^verbatim>\<open>flattenObject(obj, parent, res)\<close>, lines 16 to 30. The accumulator \<open>res\<close> is one object
  shared by all the calls; here it is passed in and handed back. \<open>flattenLoop\<close> is the
  \<^verbatim>\<open>for\<close> loop over the keys still to visit.
\<close>

function flattenObject :: "json \<Rightarrow> string \<Rightarrow> props \<Rightarrow> props"
  and flattenLoop :: "props \<Rightarrow> string \<Rightarrow> props \<Rightarrow> props" where
  "flattenObject obj parent res = flattenLoop (for_in obj) parent res"
| "flattenLoop [] parent res = res"
| "flattenLoop ((key, val) # rest) parent res =
     flattenLoop rest parent
       (if plain_object val
        then flattenObject val (propName parent key) res
        else js_set res (propName parent key) val)"
  by pat_completeness auto
termination
proof (relation "measure (\<lambda>a. case a of
          Inl (obj, parent, res) \<Rightarrow> Suc (size_list (size_prod (\<lambda>k. 0) size) (for_in obj))
        | Inr (todo, parent, res) \<Rightarrow> size_list (size_prod (\<lambda>k. 0) size) todo)")
  show "wf (measure (\<lambda>a. case a of
          Inl (obj, parent, res) \<Rightarrow> Suc (size_list (size_prod (\<lambda>k. 0) size) (for_in obj))
        | Inr (todo, parent, res) \<Rightarrow> size_list (size_prod (\<lambda>k. 0) size) todo))"
    by simp
next
  fix obj :: json and parent :: string and res :: props
  show "(Inr (for_in obj, parent, res), Inl (obj, parent, res)) \<in> measure (\<lambda>a. case a of
          Inl (obj, parent, res) \<Rightarrow> Suc (size_list (size_prod (\<lambda>k. 0) size) (for_in obj))
        | Inr (todo, parent, res) \<Rightarrow> size_list (size_prod (\<lambda>k. 0) size) todo)"
    by simp
next
  fix key :: string and val :: json and rest :: props and parent :: string and res :: props
  assume "plain_object val"
  then obtain kvs where "val = JObj kvs"
    by (cases val) (auto simp: plain_object_def)
  then show "(Inl (val, propName parent key, res), Inr ((key, val) # rest, parent, res))
      \<in> measure (\<lambda>a. case a of
          Inl (obj, parent, res) \<Rightarrow> Suc (size_list (size_prod (\<lambda>k. 0) size) (for_in obj))
        | Inr (todo, parent, res) \<Rightarrow> size_list (size_prod (\<lambda>k. 0) size) todo)"
    by simp
next
  fix key :: string and val :: json and rest :: props and parent :: string and res :: props
    and x :: props
  show "(Inr (rest, parent, x), Inr ((key, val) # rest, parent, res))
      \<in> measure (\<lambda>a. case a of
          Inl (obj, parent, res) \<Rightarrow> Suc (size_list (size_prod (\<lambda>k. 0) size) (for_in obj))
        | Inr (todo, parent, res) \<Rightarrow> size_list (size_prod (\<lambda>k. 0) size) todo)"
    by simp
qed

section \<open>The transform stage\<close>

subsection \<open>Conversion to text\<close>

text \<open>\<^verbatim>\<open>xs.join(sep)\<close> on strings.\<close>

fun join_strings :: "string \<Rightarrow> string list \<Rightarrow> string" where
  "join_strings sep [] = []"
| "join_strings sep [x] = x"
| "join_strings sep (x # y # ys) = x @ sep @ join_strings sep (y # ys)"

text \<open>
  \<^verbatim>\<open>String(v)\<close>. An array is its elements joined by commas, \<^verbatim>\<open>null\<close> elements as the empty
  string; a plain object is \<^verbatim>\<open>[object Object]\<close>.
\<close>

fun toString :: "json \<Rightarrow> string" where
  "toString JNull = ''null''"
| "toString (JBool b) = (if b then ''true'' else ''false'')"
| "toString (JNum n) = number_to_string n"
| "toString (JStr s) = s"
| "toString (JArr xs) = join_strings '','' (map (\<lambda>x. if x = JNull then [] else toString x) xs)"
| "toString (JObj kvs) = ''[object Object]''"

text \<open>\<^verbatim>\<open>xs.join(sep)\<close> on values: \<^verbatim>\<open>null\<close> gives the empty string, any other its text.\<close>

definition array_join :: "string \<Rightarrow> json list \<Rightarrow> string" where
  "array_join sep xs = join_strings sep (map (\<lambda>x. if x = JNull then [] else toString x) xs)"

subsection \<open>Property reads and comparison\<close>

text \<open>
  \<^verbatim>\<open>v.name\<close>: a \<^verbatim>\<open>TypeError\<close> on \<^verbatim>\<open>undefined\<close> and \<^verbatim>\<open>null\<close>, the own property otherwise
  (\<^verbatim>\<open>length\<close> and the indices of an array or a string), \<^verbatim>\<open>undefined\<close> when there is none.
\<close>

fun js_get :: "jsval \<Rightarrow> string \<Rightarrow> js_error + jsval" where
  "js_get None name = Inl TypeError"
| "js_get (Some JNull) name = Inl TypeError"
| "js_get (Some (JObj kvs)) name = Inr (map_of kvs name)"
| "js_get (Some (JArr xs)) name =
     Inr (if name = ''length'' then Some (JNum (int (length xs)))
          else case array_index name of
                 Some i \<Rightarrow> if i < int (length xs) then Some (xs ! nat i) else None
               | None \<Rightarrow> None)"
| "js_get (Some (JStr s)) name =
     Inr (if name = ''length'' then Some (JNum (int (length s)))
          else case array_index name of
                 Some i \<Rightarrow> if i < int (length s) then Some (JStr [s ! nat i]) else None
               | None \<Rightarrow> None)"
| "js_get (Some (JBool b)) name = Inr None"
| "js_get (Some (JNum n)) name = Inr None"

text \<open>
  What the program takes from the JavaScript library: \<^verbatim>\<open>JSON.parse\<close> (\<^const>\<open>None\<close> when it
  throws its \<^verbatim>\<open>SyntaxError\<close>), and whether the number a string converts to is greater
  than zero.
\<close>

record js_builtins =
  JSON_parse :: "string \<Rightarrow> json option"
  string_gt_zero :: "string \<Rightarrow> bool"

text \<open>
  \<^verbatim>\<open>v > 0\<close>: \<^verbatim>\<open>undefined\<close> and a plain object convert to \<^verbatim>\<open>NaN\<close>, \<^verbatim>\<open>null\<close> to 0, \<^verbatim>\<open>true\<close> to 1,
  an array to the number of its text.
\<close>

fun gt_zero :: "js_builtins \<Rightarrow> jsval \<Rightarrow> bool" where
  "gt_zero env None = False"
| "gt_zero env (Some JNull) = False"
| "gt_zero env (Some (JBool b)) = b"
| "gt_zero env (Some (JNum n)) = (0 < n)"
| "gt_zero env (Some (JStr s)) = string_gt_zero env s"
| "gt_zero env (Some (JArr xs)) = string_gt_zero env (toString (JArr xs))"
| "gt_zero env (Some (JObj kvs)) = False"

subsection \<open>Headers and rows\<close>

text \<open>
  Lines 55 to 59: every key of the flat record that \<open>headers\<close> does not include yet is
  pushed onto it.
\<close>

fun add_headers :: "string list \<Rightarrow> string list \<Rightarrow> string list" where
  "add_headers headers [] = headers"
| "add_headers headers (key # keys) =
     add_headers (if key \<notin> set headers then headers @ [key] else headers) keys"

text \<open>Lines 51 to 60: \<^verbatim>\<open>results.forEach\<close>, from the \<open>headers\<close> and \<open>rows\<close> so far.\<close>

fun scan_results :: "json list \<Rightarrow> string list \<times> props list \<Rightarrow> string list \<times> props list" where
  "scan_results [] (headers, rows) = (headers, rows)"
| "scan_results (result # results) (headers, rows) =
     (let flatResult = flattenObject result [] []
      in scan_results results (add_headers headers (map fst flatResult), rows @ [flatResult]))"

text \<open>Line 65: \<^verbatim>\<open>headers.map((header) => row[header] || "")\<close>.\<close>

definition rowValues :: "string list \<Rightarrow> props \<Rightarrow> json list" where
  "rowValues headers row = map (\<lambda>header. js_or (map_of row header) (JStr [])) headers"

text \<open>Lines 48 to 67: the chunks pushed for a non-empty array \<open>results\<close>, in order.\<close>

definition csv_chunks :: "json list \<Rightarrow> string list" where
  "csv_chunks results =
     (case scan_results results ([], []) of
        (headers, rows) \<Rightarrow>
          (join_strings '','' headers @ ''\<newline>'')
          # map (\<lambda>row. array_join '','' (rowValues headers row) @ ''\<newline>'') rows)"

subsection \<open>The stage\<close>

text \<open>
  The stage owns \<open>jsonBuffer\<close>. \<open>transform\<close> appends a chunk's text and pushes nothing;
  \<open>flush\<close> gives the chunks pushed and what the callback receives (\<^const>\<open>None\<close> for
  \<^verbatim>\<open>callback()\<close>, the caught error for \<^verbatim>\<open>callback(err)\<close>). Chunks are text.
\<close>

record stage =
  jsonBuffer :: string

definition json2csv :: stage where
  "json2csv = \<lparr>jsonBuffer = []\<rparr>"

definition transform :: "string \<Rightarrow> stage \<Rightarrow> stage" where
  "transform chunk st = st\<lparr>jsonBuffer := jsonBuffer st @ chunk\<rparr>"

definition flush :: "js_builtins \<Rightarrow> stage \<Rightarrow> string list \<times> js_error option" where
  "flush env st =
     (case JSON_parse env (jsonBuffer st) of
        None \<Rightarrow> ([], Some SyntaxError)
      | Some json \<Rightarrow>
          (case js_get (Some json) ''results'' of
             Inl err \<Rightarrow> ([], Some err)
           | Inr results \<Rightarrow>
               (case js_get results ''length'' of
                  Inl err \<Rightarrow> ([], Some err)
                | Inr len \<Rightarrow>
                    if gt_zero env len then
                      (case results of
                         Some (JArr rs) \<Rightarrow> (csv_chunks rs, None)
                       | _ \<Rightarrow> ([], Some TypeError))
                    else ([], None))))"

text \<open>The stage fed the chunks in their order of arrival, then flushed.\<close>

definition run_stage :: "js_builtins \<Rightarrow> string list \<Rightarrow> string list \<times> js_error option" where
  "run_stage env chunks = flush env (fold transform chunks json2csv)"

subsection \<open>The driver\<close>

text \<open>
  Lines 78 to 98, for a response whose body arrives as \<open>body\<close>: \<^verbatim>\<open>pipeline\<close> writes the
  chunks the stage pushes to the file; when the stage's callback received an error its
  promise rejects with it and the \<^verbatim>\<open>catch\<close> branch reports it, otherwise the two
  success lines are logged. The result is the text written and the console.
\<close>

datatype console = File_written | Time_spent | Unexpected_error js_error

definition driver :: "js_builtins \<Rightarrow> string list \<Rightarrow> string \<times> console list" where
  "driver env body =
     (case run_stage env body of
        (out, None) \<Rightarrow> (concat out, [File_written, Time_spent])
      | (out, Some err) \<Rightarrow> (concat out, [Unexpected_error err]))"

section \<open>The specification's notions\<close>



section \<open>Sample documents\<close>

text \<open>
  \<^verbatim>\<open>JSON.parse\<close> on the documents the examples use; the one other text the examples
  parse, a truncated document, is not JSON. No example compares a string with zero.
\<close>

definition sample_documents :: \<open>(string \<times> json) list\<close> where
  \<open>sample_documents =
     [(''{}'', JObj []),
      (''{"results":[]}'', JObj [(''results'', JArr [])]),
      (''{"results":5}'', JObj [(''results'', JNum 5)]),
      (''{"results":"abc"}'', JObj [(''results'', JStr ''abc'')]),
      (''{"results":{}}'', JObj [(''results'', JObj [])]),
      (''{"results":[{"a":0}]}'', JObj [(''results'', JArr [JObj [(''a'', JNum 0)]])]),
      (''{"results":[{"a":1},{"b":2}]}'',
         JObj [(''results'', JArr [JObj [(''a'', JNum 1)], JObj [(''b'', JNum 2)]])]),
      (''{"results":[{"name":{"first":"Ann"}},{"name":{"first":"Bo"}}]}'',
         JObj [(''results'',
           JArr [JObj [(''name'', JObj [(''first'', JStr ''Ann'')])],
                 JObj [(''name'', JObj [(''first'', JStr ''Bo'')])]])])]\<close>

definition sample_env :: js_builtins where
  "sample_env = \<lparr>JSON_parse = map_of sample_documents, string_gt_zero = (\<lambda>s. False)\<rparr>"

section \<open>Own properties after an assignment\<close>

lemma keys_insert_index:
  "fst ` set (insert_index i k v res) = insert k (fst ` set res)"
proof (induction res)
  case Nil
  show ?case by simp
next
  case (Cons e res)
  obtain k' v' where e: "e = (k', v')" by (cases e)
  show ?case
  proof (cases "array_index k'")
    case None
    then show ?thesis by (simp add: e insert_commute)
  next
    case (Some j)
    then show ?thesis
      using Cons.IH by (cases "j < i") (simp_all add: e insert_commute)
  qed
qed






lemma keys_js_set: "fst ` set (js_set res k v) = insert k (fst ` set res)"
  using dom_update [of k v res]
  by (auto simp: js_set_def keys_insert_index split: option.splits)





section \<open>The flattener: nested objects\<close>

lemma flattenLoop_append:
  "flattenLoop (xs @ ys) parent res = flattenLoop ys parent (flattenLoop xs parent res)"
  by (induction xs arbitrary: res) auto


section \<open>The flattener: leaves\<close>



section \<open>The flattener: records without nested objects\<close>







section \<open>The flattener: empty nested objects\<close>

lemma prefix_propName:
  "parent \<noteq> [] \<Longrightarrow> prefix (propName parent key @ ''.'') f \<Longrightarrow> prefix (parent @ ''.'') f"
  by (auto simp: propName_def prefix_def)

text \<open>Under a prefix, every key that flattening adds starts with the prefix and a dot.\<close>

lemma new_keys_prefixed:
  "f \<in> fst ` set (flattenObject obj parent res) \<Longrightarrow>
     f \<in> fst ` set res \<or> parent = [] \<or> prefix (parent @ ''.'') f"
  "f \<in> fst ` set (flattenLoop es parent res) \<Longrightarrow>
     f \<in> fst ` set res \<or> parent = [] \<or> prefix (parent @ ''.'') f"
proof (induction obj parent res and es parent res rule: flattenObject_flattenLoop.induct)
  case (1 obj parent res)
  then show ?case by simp
next
  case (2 parent res)
  then show ?case by simp
next
  case (3 key val rest parent res)
  show ?case
  proof (cases "parent = []")
    case True
    then show ?thesis by simp
  next
    case False
    let ?p = "propName parent key"
    have p: "?p \<noteq> []" "prefix (parent @ ''.'') ?p"
      using False by (simp_all add: propName_def)
    show ?thesis
    proof (cases "plain_object val")
      case True
      with "3.prems" "3.IH"(2)
      have "f \<in> fst ` set (flattenObject val ?p res) \<or> prefix (parent @ ''.'') f"
        using False by auto
      then show ?thesis
        using "3.IH"(1) [OF True] p False by (auto dest: prefix_propName)
    next
      case leaf: False
      with "3.prems" "3.IH"(2)
      have "f \<in> fst ` set (js_set res ?p val) \<or> prefix (parent @ ''.'') f"
        using False by auto
      then show ?thesis
        using p by (auto simp: keys_js_set)
    qed
  qed
qed

text \<open>Where a key of the flat record comes from.\<close>

lemma flat_key_origin:
  "f \<in> fst ` set (flattenLoop es parent res) \<Longrightarrow>
     f \<in> fst ` set res
     \<or> (\<exists>(k, v) \<in> set es.
           (plain_object v \<and> (propName parent k = [] \<or> prefix (propName parent k @ ''.'') f)
            \<or> \<not> plain_object v \<and> f = propName parent k))"
proof (induction es arbitrary: res)
  case Nil
  then show ?case by simp
next
  case (Cons e es)
  obtain k v where e: "e = (k, v)" by (cases e)
  let ?res' = "if plain_object v then flattenObject v (propName parent k) res
               else js_set res (propName parent k) v"
  from Cons.prems have "f \<in> fst ` set (flattenLoop es parent ?res')"
    by (simp add: e)
  from Cons.IH [OF this] show ?case
  proof
    assume f: "f \<in> fst ` set ?res'"
    show ?thesis
    proof (cases "plain_object v")
      case True
      with f new_keys_prefixed(1) [of f v "propName parent k" res] show ?thesis
        by (auto simp: e)
    next
      case False
      with f show ?thesis
        by (auto simp: e keys_js_set)
    qed
  next
    assume "\<exists>(k, v) \<in> set es.
           (plain_object v \<and> (propName parent k = [] \<or> prefix (propName parent k @ ''.'') f)
            \<or> \<not> plain_object v \<and> f = propName parent k)"
    then show ?thesis by auto
  qed
qed

lemma flatten_without_empty:
  "flattenLoop (before @ (k, JObj []) # after) parent res
     = flattenLoop (before @ after) parent res"
  by (simp add: flattenLoop_append plain_object_def)

lemma dotted_prefixes:
  assumes "prefix (a @ ''.'') f" and "prefix (b @ ''.'') f"
  shows "a = b \<or> prefix (a @ ''.'') b \<or> prefix (b @ ''.'') a"
proof -
  from assms have "prefix (a @ ''.'') (b @ ''.'') \<or> prefix (b @ ''.'') (a @ ''.'')"
    by (rule prefix_same_cases)
  then show ?thesis
    by (auto simp: prefix_snoc [of _ _ "CHR ''.''", simplified])
qed

lemma no_key_under_empty:
  assumes others: "\<forall>(k', v') \<in> set others.
          k' \<noteq> k \<and> \<not> prefix (k @ ''.'') k'
          \<and> (plain_object v' \<longrightarrow> k' \<noteq> [] \<and> \<not> prefix (k' @ ''.'') k)"
    and f: "f \<in> fst ` set (flattenLoop others [] [])"
  shows "f \<noteq> k \<and> \<not> prefix (k @ ''.'') f"
proof -
  from flat_key_origin [OF f] obtain k' v' where
    kv: "(k', v') \<in> set others"
    and origin: "plain_object v' \<and> (k' = [] \<or> prefix (k' @ ''.'') f)
                 \<or> \<not> plain_object v' \<and> f = k'"
    by (auto simp: propName_def)
  from others kv have o: "k' \<noteq> k" "\<not> prefix (k @ ''.'') k'"
    "plain_object v' \<Longrightarrow> k' \<noteq> [] \<and> \<not> prefix (k' @ ''.'') k"
    by auto
  show ?thesis
  proof (cases "plain_object v'")
    case True
    with origin o have pf: "prefix (k' @ ''.'') f" and nk: "\<not> prefix (k' @ ''.'') k"
      by auto
    from pf nk have "f \<noteq> k" by auto
    moreover have "\<not> prefix (k @ ''.'') f"
    proof
      assume "prefix (k @ ''.'') f"
      from dotted_prefixes [OF this pf] o nk show False by auto
    qed
    ultimately show ?thesis ..
  next
    case False
    with origin o show ?thesis by auto
  qed
qed

text \<open>
  C10, as stated, fails: in \<^verbatim>\<open>{"a": {}, "a.b": 1}\<close> the key \<^verbatim>\<open>a\<close> holds an empty object, and
  the flat record has the key \<^verbatim>\<open>a.b\<close>, which starts with \<^verbatim>\<open>a.\<close>; it comes from the
  record's other key.
\<close>

theorem empty_object_counterexample:
  "map_of [(''a'', JObj []), (''a.b'', JNum 1)] ''a'' = Some (JObj [])
   \<and> flattenObject (JObj [(''a'', JObj []), (''a.b'', JNum 1)]) [] [] = [(''a.b'', JNum 1)]
   \<and> prefix (''a'' @ ''.'') ''a.b''"
  by (simp add: plain_object_def propName_def js_set_def array_index_def is_digit_def)

text \<open>
  C10, amended. An empty nested object adds nothing itself: the record flattens to what it
  flattens to without that key. So when no other key of the record equals \<open>k\<close> or starts
  with \<open>k\<close> and a dot, and no other key that holds an object is empty or is, with a dot,
  the start of \<open>k\<close>, the flat record has no key equal to \<open>k\<close> and none that starts with
  \<open>k\<close> and a dot.
\<close>

theorem empty_object_dropped:
  "flattenObject (JObj (before @ (k, JObj []) # after)) parent res
     = flattenObject (JObj (before @ after)) parent res
   \<and> ((\<forall>(k', v') \<in> set (before @ after).
          k' \<noteq> k \<and> \<not> prefix (k @ ''.'') k'
          \<and> (plain_object v' \<longrightarrow> k' \<noteq> [] \<and> \<not> prefix (k' @ ''.'') k))
        \<longrightarrow> (\<forall>f \<in> fst ` set (flattenObject (JObj (before @ (k, JObj []) # after)) [] []).
               f \<noteq> k \<and> \<not> prefix (k @ ''.'') f))"
proof -
  have same: "flattenObject (JObj (before @ (k, JObj []) # after)) p r
      = flattenObject (JObj (before @ after)) p r" for p r
    by (simp only: flattenObject.simps for_in.simps flatten_without_empty)
  have "f \<noteq> k \<and> \<not> prefix (k @ ''.'') f"
    if "\<forall>(k', v') \<in> set (before @ after).
          k' \<noteq> k \<and> \<not> prefix (k @ ''.'') k'
          \<and> (plain_object v' \<longrightarrow> k' \<noteq> [] \<and> \<not> prefix (k' @ ''.'') k)"
      and "f \<in> fst ` set (flattenObject (JObj (before @ (k, JObj []) # after)) [] [])" for f
  proof (rule no_key_under_empty [OF that(1)])
    from that(2) show "f \<in> fst ` set (flattenLoop (before @ after) [] [])"
      by (simp only: flattenObject.simps for_in.simps flatten_without_empty)
  qed
  with same show ?thesis by blast
qed

theorem empty_object_dropped_witness:
  "flattenObject (JObj [(''a'', JNum 1), (''b'', JObj []), (''c'', JObj [(''d'', JNum 2)])]) [] []
     = [(''a'', JNum 1), (''c.d'', JNum 2)]
   \<and> ''b'' \<notin> fst ` set (flattenObject
         (JObj [(''a'', JNum 1), (''b'', JObj []), (''c'', JObj [(''d'', JNum 2)])]) [] [])
   \<and> \<not> prefix ''b.'' ''c.d''"
  using empty_object_dropped [of "[(''a'', JNum 1)]" "''b''"
      "[(''c'', JObj [(''d'', JNum 2)])]" "[]" "[]"]
  by (simp add: plain_object_def propName_def js_set_def array_index_def is_digit_def)

section \<open>Headers\<close>










section \<open>Rows\<close>

text \<open>
  A cell holds the record's value under the header when the key is there and the value
  is truthy, and the empty string otherwise.
\<close>

lemma rowValues_cells:
  "rowValues headers row =
     map (\<lambda>header. case map_of row header of
                      None \<Rightarrow> JStr []
                    | Some v \<Rightarrow> if truthy v then v else JStr []) headers"
  by (auto simp: rowValues_def split: option.splits)

section \<open>The stage on a document\<close>

lemma sample_parse:
  \<open>JSON_parse sample_env ''{}'' = Some (JObj [])\<close>
  \<open>JSON_parse sample_env ''{"results":[]}'' = Some (JObj [(''results'', JArr [])])\<close>
  \<open>JSON_parse sample_env ''{"results":5}'' = Some (JObj [(''results'', JNum 5)])\<close>
  \<open>JSON_parse sample_env ''{"results":"abc"}'' = Some (JObj [(''results'', JStr ''abc'')])\<close>
  \<open>JSON_parse sample_env ''{"results":{}}'' = Some (JObj [(''results'', JObj [])])\<close>
  \<open>JSON_parse sample_env ''{"results":[{"a":0}]}''
     = Some (JObj [(''results'', JArr [JObj [(''a'', JNum 0)]])])\<close>
  \<open>JSON_parse sample_env ''{"results":[{"a":1},{"b":2}]}''
     = Some (JObj [(''results'', JArr [JObj [(''a'', JNum 1)], JObj [(''b'', JNum 2)]])])\<close>
  \<open>JSON_parse sample_env ''{"results":[{"name":{"first":"Ann"}},{"name":{"first":"Bo"}}]}''
     = Some (JObj [(''results'',
           JArr [JObj [(''name'', JObj [(''first'', JStr ''Ann'')])],
                 JObj [(''name'', JObj [(''first'', JStr ''Bo'')])]])])\<close>
  \<open>JSON_parse sample_env ''{"results":['' = None\<close>
  by (simp_all add: sample_env_def sample_documents_def)

text \<open>At the flush the buffer is the chunks' texts, concatenated in their order of arrival.\<close>

lemma buffer_fold_transform:
  "jsonBuffer (fold transform chunks st) = jsonBuffer st @ concat chunks"
  by (induction chunks arbitrary: st) (simp_all add: transform_def)

lemma run_stage_eq: "run_stage env chunks = flush env \<lparr>jsonBuffer = concat chunks\<rparr>"
  by (simp add: run_stage_def flush_def buffer_fold_transform json2csv_def)


text \<open>
  C2 does not hold of the code: a key that is present with the value 0 gives an empty
  cell, not \<^verbatim>\<open>0\<close>. The document \<^verbatim>\<open>{"results":[{"a":0}]}\<close> yields the header \<^verbatim>\<open>a\<close> and an empty
  row, although the flat record has the key and a lone 0 joins to the text \<^verbatim>\<open>0\<close>:
  \<^verbatim>\<open>row[header] || ""\<close> replaces every falsy value.
\<close>

theorem falsy_value_blanked:
  \<open>run_stage sample_env [''{"results":[{"a":0}]}''] = ([''a\<newline>'', ''\<newline>''], None)
   \<and> map_of (flattenObject (JObj [(''a'', JNum 0)]) [] []) ''a'' = Some (JNum 0)
   \<and> rowValues [''a''] (flattenObject (JObj [(''a'', JNum 0)]) [] []) = [JStr []]
   \<and> array_join '','' [JNum 0] = ''0''\<close>
proof -
  have "csv_chunks [JObj [(''a'', JNum 0)]] = [''a\<newline>'', ''\<newline>'']"
    by code_simp
  moreover have "array_join '','' [JNum 0] = ''0''"
    by code_simp
  ultimately show ?thesis
    by (simp add: run_stage_eq flush_def sample_parse plain_object_def propName_def
          js_set_def array_index_def is_digit_def rowValues_def)
qed

text \<open>
  C3. When the buffered input is not JSON, the flush passes the \<^verbatim>\<open>SyntaxError\<close> of
  \<^verbatim>\<open>JSON.parse\<close> to its callback and the stage has pushed no chunk; the driver's pipeline
  fails with this error, nothing is written and the error is reported.
\<close>

theorem malformed_document:
  "JSON_parse env (concat chunks) = None \<Longrightarrow>
   run_stage env chunks = ([], Some SyntaxError)
   \<and> driver env chunks = ([], [Unexpected_error SyntaxError])"
  by (simp add: driver_def run_stage_eq flush_def)

theorem malformed_document_witness:
  \<open>JSON_parse sample_env (concat [''{"resu'', ''lts":['']) = None
   \<and> run_stage sample_env [''{"resu'', ''lts":['']  = ([], Some SyntaxError)
   \<and> driver sample_env [''{"resu'', ''lts":[''] = ([], [Unexpected_error SyntaxError])\<close>
proof -
  have h: \<open>JSON_parse sample_env (concat [''{"resu'', ''lts":['']) = None\<close>
    by (simp add: sample_parse)
  from h malformed_document [OF h] show ?thesis by simp
qed

text \<open>
  C9. For a document whose \<^verbatim>\<open>results\<close> is the empty list, \<^verbatim>\<open>{results: []}\<close> among them, the
  stage pushes no chunk, neither header nor row, and the flush completes without error.
\<close>

theorem empty_results:
  "JSON_parse env (concat chunks) = Some (JObj kvs) \<Longrightarrow>
   map_of kvs ''results'' = Some (JArr []) \<Longrightarrow>
   run_stage env chunks = ([], None)"
  by (simp add: run_stage_eq flush_def)

theorem empty_results_witness:
  \<open>JSON_parse sample_env (concat [''{"results":[]}'']) = Some (JObj [(''results'', JArr [])])
   \<and> map_of [(''results'', JArr [])] ''results'' = Some (JArr [])
   \<and> run_stage sample_env [''{"results":[]}''] = ([], None)\<close>
proof -
  have h: \<open>JSON_parse sample_env (concat [''{"results":[]}''])
      = Some (JObj [(''results'', JArr [])])\<close>
    by (simp add: sample_parse)
  have r: "map_of [(''results'', JArr [])] ''results'' = Some (JArr [])"
    by simp
  from h r empty_results [OF h r] show ?thesis by simp
qed







end
